theory Spec2Isabelle
  imports Main
begin

section \<open>JavaScript values, objects and errors\<close>

text \<open>
  The exceptions the modelled code can raise: a property read on \<open>undefined\<close> or \<open>null\<close>, or
  a call of something that is not a function (\<open>TypeError\<close>), and \<open>JSON.parse\<close> of a value
  that is not JSON text (\<open>SyntaxError\<close>).
\<close>

datatype js_error = TypeError | SyntaxError

text \<open>
  What a property read \<open>obj[k]\<close> can yield: \<open>undefined\<close>, a value of the kind the object
  is meant to hold, or the built-in that every object literal inherits from
  \<open>Object.prototype\<close> under the key \<open>k\<close> (a function, or the prototype object itself).
\<close>

datatype 'a js_val = Undefined | Val 'a | Builtin string

text \<open>
  An object used as a dictionary: its own properties. Where every own property holds a
  value of the intended kind, the object is given by a plain map and read through \<open>own\<close>.
\<close>

type_synonym 'a js_obj = "string \<rightharpoonup> 'a js_val"

definition own :: "(string \<rightharpoonup> 'a) \<Rightarrow> 'a js_obj" where
  "own m = (\<lambda>k. map_option Val (m k))"

text \<open>
  The names under which \<open>Object.prototype\<close> provides something: the seven of the language
  standard, and the legacy ones of the browsers the code addresses (a browser without
  one of the latter answers \<open>undefined\<close> there).
\<close>

definition Object_prototype :: "string list" where
  "Object_prototype =
     [''constructor'', ''toString'', ''toLocaleString'', ''valueOf'', ''hasOwnProperty'',
      ''isPrototypeOf'', ''propertyIsEnumerable'', ''__proto__'', ''__defineGetter__'',
      ''__defineSetter__'', ''__lookupGetter__'', ''__lookupSetter__'', ''toSource'',
      ''watch'', ''unwatch'']"

definition js_get :: "'a js_obj \<Rightarrow> string \<Rightarrow> 'a js_val" where
  \<comment> \<open>\<open>obj[k]\<close>: an own property first, then the prototype chain.\<close>
  "js_get obj k =
     (case obj k of
        Some v \<Rightarrow> v
      | None \<Rightarrow> if k \<in> set Object_prototype then Builtin k else Undefined)"

definition js_put :: "(string \<rightharpoonup> 'b) \<Rightarrow> string \<Rightarrow> 'b \<Rightarrow> (string \<rightharpoonup> 'b)" where
  \<comment> \<open>\<open>obj[k] = v\<close>; an assignment to an inherited \<open>__proto__\<close> goes to its accessor and
      creates no own property.\<close>
  "js_put obj k v = (if k = ''__proto__'' \<and> obj k = None then obj else obj(k \<mapsto> v))"

definition js_delete :: "(string \<rightharpoonup> 'b) \<Rightarrow> string \<Rightarrow> (string \<rightharpoonup> 'b)" where
  \<comment> \<open>\<open>delete obj[k]\<close> removes an own property and nothing else.\<close>
  "js_delete obj k = obj(k := None)"

fun truthy_str :: "string js_val \<Rightarrow> bool" where
  "truthy_str (Val s) = (s \<noteq> [])"
| "truthy_str (Builtin k) = True"
| "truthy_str Undefined = False"

fun truthy_ref :: "'a js_val \<Rightarrow> bool" where
  \<comment> \<open>arrays and DOM nodes are truthy, also an empty array\<close>
  "truthy_ref (Val x) = True"
| "truthy_ref (Builtin k) = True"
| "truthy_ref Undefined = False"

definition js_or :: "string option \<Rightarrow> string \<Rightarrow> string" where
  \<comment> \<open>\<open>a || b\<close> for an optional string argument \<open>a\<close>: omitted and empty are both falsy.\<close>
  "js_or a b = (case a of None \<Rightarrow> b | Some s \<Rightarrow> if s = [] then b else s)"

section \<open>Persistent storage\<close>

text \<open>
  The value stored under a storage name is the serialisation of \<open>{files: {name: content}}\<close>;
  it is represented by the mapping from document names to contents that it serialises.
  \<open>JSON.stringify\<close> omits every property whose value is \<open>undefined\<close> or a function, so
  only string contents reach the stored text. \<open>localStorage\<close> itself may be unavailable
  (falsy): \<open>None\<close>.
\<close>

type_synonym blob = "string \<rightharpoonup> string"

type_synonym storage = "(string \<rightharpoonup> blob) option"

definition JSON_parse :: "blob \<Rightarrow> string js_obj" where
  "JSON_parse b = own b"

definition JSON_stringify :: "string js_obj \<Rightarrow> blob" where
  "JSON_stringify obj = (\<lambda>k. case obj k of Some (Val s) \<Rightarrow> Some s | _ \<Rightarrow> None)"

section \<open>Settings and the constructor\<close>

text \<open>
  The settings the modelled operations read. The remaining ones (theme paths of the base
  and editor sheets, autosave interval, focus flag, shortcut key codes) only feed the DOM
  set-up and the key handlers.
\<close>

record settings =
  container :: string
  basePath :: string
  localStorageName :: string
  file_name :: string
  file_defaultContent :: string
  theme_preview :: string

record options =
  opt_container :: "string option"
  opt_basePath :: "string option"
  opt_localStorageName :: "string option"
  opt_file_name :: "string option"
  opt_file_defaultContent :: "string option"
  opt_theme_preview :: "string option"

text \<open>
  \<open>_mergeObjs(true, defaults, opts)\<close> on these settings: an option that is given replaces
  the default, also when it is the empty string. The default document name is
  \<open>opts.container || 'epiceditor'\<close>.
\<close>

definition merged :: "string \<Rightarrow> string option \<Rightarrow> string" where
  \<comment> \<open>\<open>_mergeObjs\<close> on one leaf: the option wins unless it is \<open>undefined\<close>.\<close>
  "merged d copy = (case copy of None \<Rightarrow> d | Some v \<Rightarrow> v)"

definition mergeObjs :: "options \<Rightarrow> settings" where
  "mergeObjs opts =
     \<lparr> container = merged ''epiceditor'' (opt_container opts),
       basePath = merged ''epiceditor'' (opt_basePath opts),
       localStorageName = merged ''epiceditor'' (opt_localStorageName opts),
       file_name = merged (js_or (opt_container opts) ''epiceditor'') (opt_file_name opts),
       file_defaultContent = merged [] (opt_file_defaultContent opts),
       theme_preview = merged ''/themes/preview/github.css'' (opt_theme_preview opts) \<rparr>"

text \<open>
  Handlers are functions of the embedding page; they are told apart by a number. What
  the constructor leaves behind is the instance before \<open>load\<close>, and persistent storage.
\<close>

type_synonym handler = nat

record inst =
  inst_settings :: settings
  inst_events :: "string \<rightharpoonup> handler list"
  inst_content :: "string option"

definition EpicEditor :: "options \<Rightarrow> storage \<Rightarrow> inst \<times> storage" where
  "EpicEditor opts ls =
     (let st = mergeObjs opts;
          this = \<lparr> inst_settings = st, inst_events = Map.empty, inst_content = None \<rparr>
      in case ls of
           None \<Rightarrow> (this, ls)
         | Some store \<Rightarrow>
            (case store (localStorageName st) of
               None \<Rightarrow>
                 (let defaultStorage =
                        js_put Map.empty (file_name st) (Val (file_defaultContent st))
                  in (this, Some (store(localStorageName st \<mapsto> JSON_stringify defaultStorage))))
             | Some b \<Rightarrow>
                 if \<not> truthy_str (js_get (JSON_parse b) (file_name st))
                 then (let discarded =
                             js_put (JSON_parse b) (file_name st) (Val (file_defaultContent st))
                       in (this, ls))
                 else (this \<lparr> inst_content := Some (file_defaultContent st) \<rparr>, ls)))"

section \<open>The loaded editor\<close>

record flags =
  fullscreen :: bool
  preview :: bool
  edit :: bool

record css_link =
  link_name :: string
  link_href :: string

text \<open>
  The browser around the editor: the markdown converter \<open>marked\<close>, whether
  \<open>document.body.innerText\<close> is truthy, the markup that \<open>innerHTML\<close> gives back once a
  markup has been assigned to it (the browser parses and serialises it: \<open>&\<close> comes back as
  \<open>&amp;\<close>), the text a host shows for an inherited built-in written to \<open>innerText\<close>,
  whether native fullscreen exists, and the clock reading that \<open>_insertCSSLink\<close> appends to
  a sheet's address.
\<close>

record host =
  marked :: "string \<Rightarrow> string"
  body_innerText :: bool
  innerHTML_read :: "string \<Rightarrow> string"
  builtin_text :: "string \<Rightarrow> string"
  nativeFs :: bool
  now :: string

text \<open>
  A loaded instance together with the browser state it reads and writes. Of the styles
  that the fullscreen transition saves and restores only \<open>display\<close> of the two surface
  frames is tracked (it decides which surface is visible); \<open>_getStyle\<close> is read as the value
  last written. \<open>editor_dom\<close> is what \<open>_setText\<close> last assigned to the editable body: to
  its \<open>innerText\<close>, or to its \<open>innerHTML\<close> where \<open>document.body.innerText\<close> is falsy.
  \<open>calls\<close> records the handler invocations of \<open>emit\<close>, oldest first.
\<close>

record ee =
  settings :: settings
  events :: "string \<rightharpoonup> handler list"
  content :: "string option"
  eeState :: flags
  isInEdit :: bool
  wrapper_className :: string
  editor_dom :: string
  editor_value :: "string option"
  previewer_innerHTML :: string
  theme_link :: "css_link option"
  editorIframe_display :: string
  previewerIframe_display :: string
  saved_editorIframe :: "string option"
  saved_previewerIframe :: "string option"
  utilBtns_visibility :: string
  body_overflow :: string
  keyup_previews :: nat
  localStorage :: storage
  browser :: host
  calls :: "(string \<times> handler) list"

subsection \<open>Events\<close>

text \<open>
  \<open>emit\<close> calls the handlers registered for the event in registration order. A handler is
  code of the embedding page: its call is recorded, and it is taken not to touch the editor.
\<close>

definition ee_on :: "string \<Rightarrow> handler \<Rightarrow> ee \<Rightarrow> js_error + ee" where
  "ee_on ev h w =
     (let evs = (if \<not> truthy_ref (js_get (own (events w)) ev) then js_put (events w) ev []
                 else events w)
      in case js_get (own evs) ev of
           Val hs \<Rightarrow> Inr (w \<lparr> events := evs(ev \<mapsto> hs @ [h]) \<rparr>)
         | _ \<Rightarrow> Inl TypeError)"

definition ee_emit :: "string \<Rightarrow> ee \<Rightarrow> js_error + ee" where
  "ee_emit ev w =
     (if \<not> truthy_ref (js_get (own (events w)) ev) then Inr w
      else case js_get (own (events w)) ev of
             Val hs \<Rightarrow> Inr (w \<lparr> calls := calls w @ map (Pair ev) hs \<rparr>)
           | _ \<Rightarrow> Inl TypeError)"

definition ee_removeListener :: "string \<Rightarrow> handler option \<Rightarrow> ee \<Rightarrow> js_error + ee" where
  \<comment> \<open>the last branch reads \<open>this._events[ev]\<close>, and \<open>this._events\<close> is defined nowhere\<close>
  "ee_removeListener ev h w =
     (if h = None then Inr (w \<lparr> events := js_put (events w) ev [] \<rparr>)
      else if \<not> truthy_ref (js_get (own (events w)) ev) then Inr w
      else Inl TypeError)"

subsection \<open>Surfaces\<close>

datatype surface = Document | Body | Editor | Previewer | Wrapper

definition ee_get :: "string \<Rightarrow> ee \<Rightarrow> surface js_val option" where
  \<comment> \<open>\<open>None\<close> is \<open>null\<close>\<close>
  "ee_get name w =
     (let available = own [''document'' \<mapsto> Document, ''body'' \<mapsto> Body,
                           ''editor'' \<mapsto> Editor, ''previewer'' \<mapsto> Previewer,
                           ''wrapper'' \<mapsto> Wrapper]
      in if \<not> truthy_ref (js_get available name) then None
         else Some (js_get available name))"

text \<open>
  \<open>_setText\<close> and \<open>_getText\<close> go through \<open>innerText\<close> where \<open>document.body.innerText\<close> is
  truthy; \<open>innerText\<close> is taken to read back the text assigned to it. Elsewhere they go
  through \<open>innerHTML\<close>: every line feed is written as \<open><br>\<close>, and every \<open><br>\<close>, in
  either case of the letters, of the markup the browser gives back is read as a line feed.
\<close>

fun nl_to_br :: "string \<Rightarrow> string" where
  \<comment> \<open>\<open>content.replace(/\n/g, "<br>")\<close>\<close>
  "nl_to_br [] = []"
| "nl_to_br (c # cs) = (if c = CHR 0x0A then ''<br>'' @ nl_to_br cs else c # nl_to_br cs)"

fun br_to_nl :: "string \<Rightarrow> string" where
  \<comment> \<open>\<open>el.innerHTML.replace(/<br>/gi, "\n")\<close>\<close>
  "br_to_nl (a # b # c # d # cs) =
     (if a = CHR ''<'' \<and> (b = CHR ''b'' \<or> b = CHR ''B'') \<and> (c = CHR ''r'' \<or> c = CHR ''R'')
         \<and> d = CHR ''>''
      then CHR 0x0A # br_to_nl cs
      else a # br_to_nl (b # c # d # cs))"
| "br_to_nl cs = cs"

definition getText :: "ee \<Rightarrow> string" where
  "getText w =
     (if body_innerText (browser w) then editor_dom w
      else br_to_nl (innerHTML_read (browser w) (editor_dom w)))"

definition setText :: "string js_val \<Rightarrow> ee \<Rightarrow> js_error + ee" where
  \<comment> \<open>a value that is not a string is turned into text by \<open>innerText\<close>, and has no
      \<open>replace\<close> method where \<open>innerHTML\<close> is used\<close>
  "setText c w =
     (case c of
        Val s \<Rightarrow>
          if body_innerText (browser w) then Inr (w \<lparr> editor_dom := s \<rparr>)
          else Inr (w \<lparr> editor_dom := nl_to_br s \<rparr>)
      | Builtin k \<Rightarrow>
          if body_innerText (browser w) then Inr (w \<lparr> editor_dom := builtin_text (browser w) k \<rparr>)
          else Inl TypeError
      | Undefined \<Rightarrow>
          if body_innerText (browser w) then Inr (w \<lparr> editor_dom := ''undefined'' \<rparr>)
          else Inl TypeError)"

definition ee_exportHTML :: "ee \<Rightarrow> string" where
  "ee_exportHTML w = marked (browser w) (getText w)"

fun starts_with :: "string \<Rightarrow> string \<Rightarrow> bool" where
  "starts_with [] s = True"
| "starts_with (p # ps) [] = False"
| "starts_with (p # ps) (c # cs) = (p = c \<and> starts_with ps cs)"

fun replace_first :: "string \<Rightarrow> string \<Rightarrow> string \<Rightarrow> string" where
  \<comment> \<open>\<open>s.replace(o, n)\<close> for a string pattern: the first occurrence only\<close>
  "replace_first old new [] = (if old = [] then new else [])"
| "replace_first old new (c # cs) =
     (if starts_with old (c # cs) then new @ drop (length old) (c # cs)
      else c # replace_first old new cs)"

definition replaceClass :: "string \<Rightarrow> string \<Rightarrow> ee \<Rightarrow> ee" where
  "replaceClass old new w = w \<lparr> wrapper_className := replace_first old new (wrapper_className w) \<rparr>"

definition insertCSSLink :: "string \<Rightarrow> ee \<Rightarrow> ee" where
  \<comment> \<open>the link with id \<open>theme\<close> in the preview surface's document\<close>
  "insertCSSLink path w =
     w \<lparr> theme_link := Some \<lparr> link_name = path, link_href = path @ ''?'' @ now (browser w) \<rparr> \<rparr>"

subsection \<open>Document store\<close>

definition ee_open :: "string option \<Rightarrow> ee \<Rightarrow> js_error + ee" where
  "ee_open name w =
     (let name' = js_or name (file_name (settings w)) in
      case localStorage w of
        None \<Rightarrow> Inr w
      | Some store \<Rightarrow>
         (case store (localStorageName (settings w)) of
            None \<Rightarrow> Inr w
          | Some b \<Rightarrow>
             (let fileObj = JSON_parse b in
              case (if truthy_str (js_get fileObj name') then setText (js_get fileObj name') w
                    else setText (Val (file_defaultContent (settings w))) w) of
                Inl e \<Rightarrow> Inl e
              | Inr w1 \<Rightarrow>
                 (let w2 = w1 \<lparr> settings := (settings w1) \<lparr> file_name := name' \<rparr> \<rparr>;
                      w3 = w2 \<lparr> previewer_innerHTML := ee_exportHTML w2 \<rparr>
                  in ee_emit ''open'' w3))))"

definition ee_save :: "string option \<Rightarrow> string option \<Rightarrow> ee \<Rightarrow> js_error + ee" where
  "ee_save file c w =
     (let file' = js_or file (file_name (settings w));
          c' = js_or c (getText w)
      in case localStorage w of
           None \<Rightarrow> Inl TypeError
         | Some store \<Rightarrow>
            (case store (localStorageName (settings w)) of
               None \<Rightarrow> Inl SyntaxError
             | Some b \<Rightarrow>
                (let s = js_put (JSON_parse b) file' (Val c')
                 in ee_emit ''save''
                      (w \<lparr> localStorage :=
                             Some (store(localStorageName (settings w) \<mapsto> JSON_stringify s)) \<rparr>))))"

definition ee_remove :: "string option \<Rightarrow> ee \<Rightarrow> js_error + ee" where
  "ee_remove name w =
     (let name' = js_or name (file_name (settings w)) in
      case localStorage w of
        None \<Rightarrow> Inl TypeError
      | Some store \<Rightarrow>
         (case store (localStorageName (settings w)) of
            None \<Rightarrow> Inl SyntaxError
          | Some b \<Rightarrow>
             (let s = js_delete (JSON_parse b) name'
              in ee_emit ''remove''
                   (w \<lparr> localStorage :=
                          Some (store(localStorageName (settings w) \<mapsto> JSON_stringify s)) \<rparr>))))"

definition ee_importFile :: "string option \<Rightarrow> string option \<Rightarrow> ee \<Rightarrow> js_error + ee" where
  \<comment> \<open>\<open>get('editor')\<close> is the editable body element; the content goes to its \<open>value\<close>
      property, which \<open>_getText\<close> does not read\<close>
  "ee_importFile name c w =
     (let c' = js_or c [] in
      case ee_open name w of
        Inl e \<Rightarrow> Inl e
      | Inr w1 \<Rightarrow>
         (case ee_get ''editor'' w1 of
            None \<Rightarrow> Inl TypeError
          | Some el \<Rightarrow>
             (case ee_save None None (w1 \<lparr> editor_value := Some c' \<rparr>) of
                Inl e \<Rightarrow> Inl e
              | Inr w2 \<Rightarrow> ee_open name w2)))"

definition ee_rename :: "string \<Rightarrow> string \<Rightarrow> ee \<Rightarrow> js_error + ee" where
  "ee_rename oldName newName w =
     (case localStorage w of
        None \<Rightarrow> Inl TypeError
      | Some store \<Rightarrow>
         (case store (localStorageName (settings w)) of
            None \<Rightarrow> Inl SyntaxError
          | Some b \<Rightarrow>
             (let s = JSON_parse b;
                  s1 = js_put s newName (js_get s oldName);
                  s2 = js_delete s1 oldName
              in ee_open (Some newName)
                   (w \<lparr> localStorage :=
                          Some (store(localStorageName (settings w) \<mapsto> JSON_stringify s2)) \<rparr>))))"

subsection \<open>View modes\<close>

text \<open>
  The first argument of \<open>preview\<close> is a theme path, is omitted, or is a boolean, which the
  method then takes for \<open>live\<close>. \<open>_goFullscreen\<close> and \<open>_exitFullscreen\<close> are the closures that
  \<open>load\<close> hands to the fullscreen button, the key handler and the fullscreen-change
  notification.
\<close>

datatype theme_arg = ThemeOmitted | ThemePath string | ThemeBool bool

definition is_live :: "theme_arg \<Rightarrow> bool option \<Rightarrow> bool" where
  \<comment> \<open>a boolean first argument is taken as \<open>live\<close> and overrides the second one\<close>
  "is_live theme live = (case theme of ThemeBool b \<Rightarrow> b | _ \<Rightarrow> live = Some True)"

definition ee_preview :: "theme_arg \<Rightarrow> bool option \<Rightarrow> ee \<Rightarrow> js_error + ee" where
  "ee_preview theme live w =
     (let themePath = basePath (settings w) @ theme_preview (settings w);
          live' = is_live theme live;
          theme' = (case theme of
                      ThemeBool b \<Rightarrow> themePath
                    | ThemePath p \<Rightarrow> if p = [] then themePath else p
                    | ThemeOmitted \<Rightarrow> themePath)
      in case ee_get ''wrapper'' w of
           None \<Rightarrow> Inl TypeError
         | Some el \<Rightarrow>
            (let w1 = replaceClass ''epiceditor-edit-mode'' ''epiceditor-preview-mode'' w;
                 w2 = (case theme_link w1 of
                         None \<Rightarrow> insertCSSLink theme' w1
                       | Some l \<Rightarrow>
                           if link_name l \<noteq> theme'
                           then w1 \<lparr> theme_link := Some (l \<lparr> link_href := theme' \<rparr>) \<rparr>
                           else w1);
                 w3 = w2 \<lparr> previewer_innerHTML := ee_exportHTML w2 \<rparr>;
                 w4 = (if \<not> live'
                       then w3 \<lparr> editorIframe_display := ''none'',
                                 previewerIframe_display := ''block'',
                                 eeState := (eeState w3) \<lparr> preview := True, edit := False \<rparr> \<rparr>
                       else w3)
             in ee_emit ''preview'' w4))"

definition ee_edit :: "ee \<Rightarrow> js_error + ee" where
  "ee_edit w =
     (case ee_get ''wrapper'' w of
        None \<Rightarrow> Inl TypeError
      | Some el \<Rightarrow>
         (let w1 = replaceClass ''epiceditor-preview-mode'' ''epiceditor-edit-mode'' w;
              w2 = w1 \<lparr> eeState := (eeState w1) \<lparr> preview := False, edit := True \<rparr>,
                        editorIframe_display := ''block'',
                        previewerIframe_display := ''none'' \<rparr>
          in ee_emit ''edit'' w2))"

definition goFullscreen :: "ee \<Rightarrow> js_error + ee" where
  "goFullscreen w =
     (let w1 = w \<lparr> eeState := \<lparr> fullscreen = True, preview = True, edit = True \<rparr> \<rparr>;
          w2 = w1 \<lparr> saved_editorIframe := Some (editorIframe_display w1),
                    editorIframe_display := ''block'' \<rparr>;
          w3 = w2 \<lparr> saved_previewerIframe := Some (previewerIframe_display w2),
                    previewerIframe_display := ''block'' \<rparr>;
          w4 = w3 \<lparr> utilBtns_visibility := ''hidden'' \<rparr>;
          w5 = (if \<not> nativeFs (browser w4) then w4 \<lparr> body_overflow := ''hidden'' \<rparr> else w4)
      in case ee_preview (ThemeBool True) None w5 of
           Inl e \<Rightarrow> Inl e
         | Inr w6 \<Rightarrow> Inr (w6 \<lparr> keyup_previews := Suc (keyup_previews w6) \<rparr>))"

definition exitFullscreen :: "ee \<Rightarrow> ee" where
  "exitFullscreen w =
     (let w1 = (case saved_editorIframe w of
                  None \<Rightarrow> w
                | Some d \<Rightarrow> w \<lparr> editorIframe_display := d \<rparr>);
          w2 = (case saved_previewerIframe w1 of
                  None \<Rightarrow> w1
                | Some d \<Rightarrow> w1 \<lparr> previewerIframe_display := d \<rparr>);
          w3 = w2 \<lparr> utilBtns_visibility := ''visible'' \<rparr>;
          w4 = (if \<not> nativeFs (browser w3) then w3 \<lparr> body_overflow := ''auto'' \<rparr> else w3);
          w5 = w4 \<lparr> eeState := (eeState w4) \<lparr> fullscreen := False \<rparr> \<rparr>
      in if isInEdit w5
         then w5 \<lparr> eeState := (eeState w5) \<lparr> preview := False \<rparr> \<rparr>
         else w5 \<lparr> eeState := (eeState w5) \<lparr> edit := False \<rparr> \<rparr>)"

subsection \<open>Loading\<close>

text \<open>
  \<open>load\<close> builds the surfaces, preloads the preview theme, opens the configured document
  and emits \<open>load\<close>. The sizes of the frames, the registration of the button, mouse and
  key handlers and the autosave timer leave the modelled state as it is.
\<close>

definition ee_load :: "inst \<Rightarrow> storage \<Rightarrow> host \<Rightarrow> js_error + ee" where
  \<comment> \<open>\<open>_isInEdit\<close> is assigned here, once the document is opened, and nowhere else\<close>
  "ee_load this ls h =
     (let st0 = \<lparr> fullscreen = False, preview = False, edit = True \<rparr>;
          w0 = \<lparr> settings = inst_settings this,
                 events = inst_events this,
                 content = inst_content this,
                 eeState = st0,
                 isInEdit = False,
                 wrapper_className = ''epiceditor-wrapper epiceditor-edit-mode'',
                 editor_dom = [],
                 editor_value = None,
                 previewer_innerHTML = [],
                 theme_link = None,
                 editorIframe_display = [],
                 previewerIframe_display = ''none'',
                 saved_editorIframe = None,
                 saved_previewerIframe = None,
                 utilBtns_visibility = [],
                 body_overflow = [],
                 keyup_previews = 0,
                 localStorage = ls,
                 browser = h,
                 calls = [] \<rparr>;
          w1 = insertCSSLink (basePath (settings w0) @ theme_preview (settings w0)) w0
      in case ee_open (Some (file_name (settings w1))) w1 of
           Inl e \<Rightarrow> Inl e
         | Inr w2 \<Rightarrow> ee_emit ''load'' (w2 \<lparr> isInEdit := edit (eeState w2) \<rparr>))"

section \<open>Runs and observations\<close>

definition and_then :: "js_error + ee \<Rightarrow> (ee \<Rightarrow> js_error + ee) \<Rightarrow> js_error + ee" where
  \<comment> \<open>the next call runs unless the previous one raised\<close>
  "and_then r f = (case r of Inl e \<Rightarrow> Inl e | Inr w \<Rightarrow> f w)"

definition observe :: "(ee \<Rightarrow> 'a) \<Rightarrow> js_error + ee \<Rightarrow> js_error + 'a" where
  "observe f r = (case r of Inl e \<Rightarrow> Inl e | Inr w \<Rightarrow> Inr (f w))"

definition stored :: "ee \<Rightarrow> blob option" where
  \<comment> \<open>the blob under the instance's storage name\<close>
  "stored w =
     (case localStorage w of
        None \<Rightarrow> None
      | Some store \<Rightarrow> store (localStorageName (settings w)))"

definition stored_doc :: "string \<Rightarrow> ee \<Rightarrow> string option" where
  "stored_doc k w = (case stored w of None \<Rightarrow> None | Some b \<Rightarrow> b k)"

definition handlers :: "string \<Rightarrow> ee \<Rightarrow> handler list" where
  "handlers ev w = (case events w ev of None \<Rightarrow> [] | Some hs \<Rightarrow> hs)"

definition surface_reads :: "host \<Rightarrow> string \<Rightarrow> string" where
  \<comment> \<open>what \<open>_getText\<close> returns once \<open>_setText\<close> has written the string\<close>
  "surface_reads h s =
     (if body_innerText h then s else br_to_nl (innerHTML_read h (nl_to_br s)))"

text \<open>
  The calls that reach the editor after \<open>load\<close>: its public methods, the two fullscreen
  closures, and the tick of the autosave timer, which runs
  \<open>self.content = this.value; self.save(self.settings.file.name, this.value)\<close> with the
  window for \<open>this\<close>, so that both values are \<open>undefined\<close>.
\<close>

datatype call =
    Open "string option"
  | Save "string option" "string option"
  | Autosave
  | Remove "string option"
  | ImportFile "string option" "string option"
  | Rename string string
  | Preview theme_arg "bool option"
  | Edit
  | EnterFullscreen
  | ExitFullscreen
  | On string handler
  | Emit string
  | RemoveListener string "handler option"

fun run_op :: "call \<Rightarrow> ee \<Rightarrow> js_error + ee" where
  "run_op (Open name) w = ee_open name w"
| "run_op (Save file c) w = ee_save file c w"
| "run_op Autosave w = ee_save (Some (file_name (settings w))) None (w \<lparr> content := None \<rparr>)"
| "run_op (Remove name) w = ee_remove name w"
| "run_op (ImportFile name c) w = ee_importFile name c w"
| "run_op (Rename oldName newName) w = ee_rename oldName newName w"
| "run_op (Preview theme live) w = ee_preview theme live w"
| "run_op Edit w = ee_edit w"
| "run_op EnterFullscreen w = goFullscreen w"
| "run_op ExitFullscreen w = Inr (exitFullscreen w)"
| "run_op (On ev h) w = ee_on ev h w"
| "run_op (Emit ev) w = ee_emit ev w"
| "run_op (RemoveListener ev h) w = ee_removeListener ev h w"

fun run_ops :: "call list \<Rightarrow> ee \<Rightarrow> js_error + ee" where
  "run_ops [] w = Inr w"
| "run_ops (x # xs) w = and_then (run_op x w) (run_ops xs)"

fun writes_entry :: "call \<Rightarrow> bool" where
  \<comment> \<open>the calls that assign to \<open>s.files[...]\<close>: \<open>save\<close>, its two callers, and \<open>rename\<close>\<close>
  "writes_entry (Save file c) = True"
| "writes_entry Autosave = True"
| "writes_entry (ImportFile name c) = True"
| "writes_entry (Rename oldName newName) = True"
| "writes_entry x = False"

text \<open>
  The states the user interface reaches. The key handler switches to preview or edit only
  while \<open>eeState.fullscreen\<close> is false, and leaves fullscreen (on Escape, or on the native
  fullscreen-change notification) only while it is true; entering is not guarded, and a
  live preview runs on every key released once fullscreen has been entered.
\<close>

inductive reachable :: "ee \<Rightarrow> bool" where
  loaded: "ee_load this ls h = Inr w \<Longrightarrow> reachable w"
| previewed: "reachable w \<Longrightarrow> is_live theme live \<or> \<not> fullscreen (eeState w) \<Longrightarrow>
              ee_preview theme live w = Inr w' \<Longrightarrow> reachable w'"
| edited: "reachable w \<Longrightarrow> \<not> fullscreen (eeState w) \<Longrightarrow> ee_edit w = Inr w' \<Longrightarrow> reachable w'"
| entered: "reachable w \<Longrightarrow> goFullscreen w = Inr w' \<Longrightarrow> reachable w'"
| exited: "reachable w \<Longrightarrow> fullscreen (eeState w) \<Longrightarrow> reachable (exitFullscreen w)"

section \<open>A concrete page\<close>

text \<open>
  An editor constructed with \<open>file.name = "a"\<close> and \<open>file.defaultContent = "hello"\<close> over a
  store that already holds the document \<open>a\<close>, and the state \<open>load\<close> leaves it in. The
  browser's \<open>innerHTML\<close> gives a markup back as it was assigned, as browsers do for a
  markup of plain words and \<open><br>\<close>.
\<close>

definition ex_options :: options where
  "ex_options =
     \<lparr> opt_container = None, opt_basePath = None, opt_localStorageName = None,
       opt_file_name = Some ''a'', opt_file_defaultContent = Some ''hello'',
       opt_theme_preview = None \<rparr>"

definition ex_storage :: storage where
  "ex_storage = Some [''epiceditor'' \<mapsto> [''a'' \<mapsto> ''old text'']]"

definition ex_host :: host where
  "ex_host =
     \<lparr> marked = (\<lambda>s. ''<p>'' @ s @ ''</p>''),
       body_innerText = True,
       innerHTML_read = (\<lambda>m. m),
       builtin_text =
         (\<lambda>k. if k = ''__proto__'' then ''[object Object]''
              else ''function '' @ (if k = ''constructor'' then ''Object'' else k)
                     @ ''() { [native code] }''),
       nativeFs = False,
       now = ''0'' \<rparr>"

definition ex_ee :: ee where
  "ex_ee =
     \<lparr> settings = mergeObjs ex_options,
       events = Map.empty,
       content = Some ''hello'',
       eeState = \<lparr> fullscreen = False, preview = False, edit = True \<rparr>,
       isInEdit = True,
       wrapper_className = ''epiceditor-wrapper epiceditor-edit-mode'',
       editor_dom = ''old text'',
       editor_value = None,
       previewer_innerHTML = ''<p>old text</p>'',
       theme_link = Some \<lparr> link_name = ''epiceditor/themes/preview/github.css'',
                              link_href = ''epiceditor/themes/preview/github.css?0'' \<rparr>,
       editorIframe_display = [],
       previewerIframe_display = ''none'',
       saved_editorIframe = None,
       saved_previewerIframe = None,
       utilBtns_visibility = [],
       body_overflow = [],
       keyup_previews = 0,
       localStorage = ex_storage,
       browser = ex_host,
       calls = [] \<rparr>"

text \<open>
  The same page in a browser where \<open>document.body.innerText\<close> is falsy, and the page of an
  editor constructed for the document \<open>notes\<close>, which the store does not hold.
\<close>

definition ex_html :: ee where
  "ex_html = ex_ee \<lparr> browser := ex_host \<lparr> body_innerText := False \<rparr> \<rparr>"

definition ex_notes :: ee where
  "ex_notes =
     ex_ee \<lparr> settings := mergeObjs (ex_options \<lparr> opt_file_name := Some ''notes'' \<rparr>),
             content := None,
             editor_dom := ''hello'',
             previewer_innerHTML := ''<p>hello</p>'' \<rparr>"

section \<open>Basic facts\<close>

lemma not_inherited:
  "''save'' \<notin> set Object_prototype" "''open'' \<notin> set Object_prototype"
  "''remove'' \<notin> set Object_prototype" "''load'' \<notin> set Object_prototype"
  "''preview'' \<notin> set Object_prototype" "''edit'' \<notin> set Object_prototype"
  by (simp_all add: Object_prototype_def)

lemma js_get_own:
  "js_get (own m) k =
     (case m k of Some v \<Rightarrow> Val v
      | None \<Rightarrow> if k \<in> set Object_prototype then Builtin k else Undefined)"
  by (simp add: js_get_def own_def split: option.splits)

lemma ee_emit_plain:
  assumes "ev \<notin> set Object_prototype"
  shows "ee_emit ev w = Inr (w \<lparr> calls := calls w @ map (Pair ev) (handlers ev w) \<rparr>)"
proof (cases "events w ev")
  case None
  with assms show ?thesis
    by (simp add: ee_emit_def js_get_own handlers_def)
next
  case (Some hs)
  with assms show ?thesis
    by (simp add: ee_emit_def js_get_own handlers_def)
qed

lemma ex_mergeObjs:
  "mergeObjs ex_options =
     \<lparr> container = ''epiceditor'', basePath = ''epiceditor'', localStorageName = ''epiceditor'',
       file_name = ''a'', file_defaultContent = ''hello'',
       theme_preview = ''/themes/preview/github.css'' \<rparr>"
  by (simp add: mergeObjs_def ex_options_def merged_def js_or_def)

lemma ex_constructed:
  "EpicEditor ex_options ex_storage =
     (\<lparr> inst_settings = mergeObjs ex_options, inst_events = Map.empty, inst_content = Some ''hello'' \<rparr>,
      ex_storage)"
  by (simp add: EpicEditor_def ex_mergeObjs ex_storage_def JSON_parse_def js_get_own Let_def)

lemma ex_loaded:
  "ee_load (fst (EpicEditor ex_options ex_storage)) (snd (EpicEditor ex_options ex_storage)) ex_host
     = Inr ex_ee"
  unfolding ex_constructed fst_conv snd_conv
  by (simp add: ee_load_def insertCSSLink_def ee_open_def ex_mergeObjs
      ex_storage_def JSON_parse_def js_get_own Let_def js_or_def setText_def ee_exportHTML_def
      getText_def ee_emit_plain not_inherited handlers_def ex_ee_def ex_host_def)


lemma stringify_put_val:
  "k \<noteq> ''__proto__'' \<Longrightarrow> JSON_stringify (js_put (JSON_parse b) k (Val c)) = b(k \<mapsto> c)"
  by (rule ext) (simp add: JSON_stringify_def js_put_def JSON_parse_def own_def split: option.splits)

lemma stringify_delete:
  "JSON_stringify (js_delete (JSON_parse b) k) = b(k := None)"
  by (rule ext) (simp add: JSON_stringify_def js_delete_def JSON_parse_def own_def split: option.splits)

lemma ee_save_effect:
  assumes "localStorage w = Some store" and "store (localStorageName (settings w)) = Some b"
  shows "ee_save file c w =
           Inr (w \<lparr> localStorage :=
                      Some (store(localStorageName (settings w) \<mapsto>
                              JSON_stringify (js_put (JSON_parse b) (js_or file (file_name (settings w)))
                                                (Val (js_or c (getText w)))))),
                    calls := calls w @ map (Pair ''save'') (handlers ''save'' w) \<rparr>)"
  using assms by (simp add: ee_save_def Let_def ee_emit_plain not_inherited handlers_def)

lemma ee_remove_effect:
  assumes "localStorage w = Some store" and "store (localStorageName (settings w)) = Some b"
  shows "ee_remove name w =
           Inr (w \<lparr> localStorage :=
                      Some (store(localStorageName (settings w) \<mapsto>
                              b(js_or name (file_name (settings w)) := None))),
                    calls := calls w @ map (Pair ''remove'') (handlers ''remove'' w) \<rparr>)"
  using assms by (simp add: ee_remove_def Let_def ee_emit_plain not_inherited handlers_def stringify_delete)

lemma getText_written:
  "getText (w \<lparr> editor_dom := (if body_innerText (browser w) then s else nl_to_br s) \<rparr>)
     = surface_reads (browser w) s"
  by (simp add: getText_def surface_reads_def)

lemma surface_reads_innerText: "body_innerText h \<Longrightarrow> surface_reads h s = s"
  by (simp add: surface_reads_def)

lemma ee_open_effect:
  assumes "localStorage w = Some store" and "store (localStorageName (settings w)) = Some b"
    and "js_or name (file_name (settings w)) \<notin> set Object_prototype"
  shows "ee_open name w =
           Inr (w \<lparr> editor_dom :=
                      (if body_innerText (browser w)
                       then (case b (js_or name (file_name (settings w))) of
                               None \<Rightarrow> file_defaultContent (settings w)
                             | Some c \<Rightarrow> if c = [] then file_defaultContent (settings w) else c)
                       else nl_to_br
                              (case b (js_or name (file_name (settings w))) of
                                 None \<Rightarrow> file_defaultContent (settings w)
                               | Some c \<Rightarrow> if c = [] then file_defaultContent (settings w) else c)),
                    settings := (settings w) \<lparr> file_name := js_or name (file_name (settings w)) \<rparr>,
                    previewer_innerHTML :=
                      marked (browser w)
                        (surface_reads (browser w)
                           (case b (js_or name (file_name (settings w))) of
                              None \<Rightarrow> file_defaultContent (settings w)
                            | Some c \<Rightarrow> if c = [] then file_defaultContent (settings w) else c)),
                    calls := calls w @ map (Pair ''open'') (handlers ''open'' w) \<rparr>)"
proof (cases "b (js_or name (file_name (settings w)))")
  case None
  with assms show ?thesis
    by (simp add: ee_open_def Let_def JSON_parse_def js_get_own setText_def ee_exportHTML_def
        getText_def surface_reads_def ee_emit_plain not_inherited handlers_def)
next
  case (Some c)
  with assms show ?thesis
    by (simp add: ee_open_def Let_def JSON_parse_def js_get_own setText_def ee_exportHTML_def
        getText_def surface_reads_def ee_emit_plain not_inherited handlers_def)
qed

lemma ee_get_wrapper: "ee_get ''wrapper'' w = Some (Val Wrapper)"
  by (simp add: ee_get_def js_get_own)

lemma ee_get_editor: "ee_get ''editor'' w = Some (Val Editor)"
  by (simp add: ee_get_def js_get_own)

lemma ee_preview_live:
  assumes "is_live theme live"
  shows "ee_preview theme live w =
           Inr (w \<lparr> wrapper_className :=
                      replace_first ''epiceditor-edit-mode'' ''epiceditor-preview-mode''
                        (wrapper_className w),
                    theme_link :=
                      (let themePath = basePath (settings w) @ theme_preview (settings w);
                           theme' = (case theme of
                                       ThemeBool b \<Rightarrow> themePath
                                     | ThemePath p \<Rightarrow> if p = [] then themePath else p
                                     | ThemeOmitted \<Rightarrow> themePath)
                       in case theme_link w of
                            None \<Rightarrow> Some \<lparr> link_name = theme',
                                             link_href = theme' @ ''?'' @ now (browser w) \<rparr>
                          | Some l \<Rightarrow> if link_name l \<noteq> theme'
                                      then Some (l \<lparr> link_href := theme' \<rparr>) else Some l),
                    previewer_innerHTML := marked (browser w) (getText w),
                    calls := calls w @ map (Pair ''preview'') (handlers ''preview'' w) \<rparr>)"
  using assms
  by (cases "theme_link w")
     (simp_all add: ee_preview_def ee_get_wrapper Let_def replaceClass_def insertCSSLink_def
        ee_exportHTML_def getText_def ee_emit_plain not_inherited handlers_def)

lemma ee_preview_flags:
  "\<exists>w'. ee_preview theme live w = Inr w' \<and> isInEdit w' = isInEdit w \<and>
     eeState w' = (if is_live theme live then eeState w
                   else (eeState w) \<lparr> preview := True, edit := False \<rparr>)"
  by (cases "theme_link w")
     (simp_all add: ee_preview_def ee_get_wrapper Let_def replaceClass_def insertCSSLink_def
        ee_exportHTML_def getText_def ee_emit_plain not_inherited handlers_def)

lemma ee_edit_flags:
  "\<exists>w'. ee_edit w = Inr w' \<and> isInEdit w' = isInEdit w \<and>
     eeState w' = (eeState w) \<lparr> preview := False, edit := True \<rparr>"
  by (simp add: ee_edit_def ee_get_wrapper Let_def replaceClass_def ee_emit_plain not_inherited)

lemma goFullscreen_flags:
  "\<exists>w'. goFullscreen w = Inr w' \<and> isInEdit w' = isInEdit w \<and>
     eeState w' = \<lparr> fullscreen = True, preview = True, edit = True \<rparr>"
proof -
  have live: "is_live (ThemeBool True) None"
    by (simp add: is_live_def)
  show ?thesis
    by (simp add: goFullscreen_def Let_def ee_preview_live [OF live])
qed

lemma exitFullscreen_flags:
  "isInEdit (exitFullscreen w) = isInEdit w"
  "eeState (exitFullscreen w) =
     (if isInEdit w then (eeState w) \<lparr> fullscreen := False, preview := False \<rparr>
      else (eeState w) \<lparr> fullscreen := False, edit := False \<rparr>)"
  by (simp_all add: exitFullscreen_def Let_def split: option.splits)


lemma ee_emit_flags:
  "ee_emit ev w = Inr w' \<Longrightarrow> eeState w' = eeState w \<and> isInEdit w' = isInEdit w"
  by (auto simp: ee_emit_def split: if_splits js_val.splits)

lemma setText_flags:
  "setText c w = Inr w' \<Longrightarrow> eeState w' = eeState w \<and> isInEdit w' = isInEdit w"
  by (auto simp: setText_def split: if_splits js_val.splits)

lemma ee_open_flags:
  assumes "ee_open name w = Inr w'"
  shows "eeState w' = eeState w \<and> isInEdit w' = isInEdit w"
proof (cases "stored w")
  case None
  with assms show ?thesis
    by (auto simp: ee_open_def stored_def split: option.splits)
next
  case (Some b)
  then obtain store where st: "localStorage w = Some store"
      "store (localStorageName (settings w)) = Some b"
    by (auto simp: stored_def split: option.splits)
  define r where
    "r = (if truthy_str (js_get (JSON_parse b) (js_or name (file_name (settings w))))
          then setText (js_get (JSON_parse b) (js_or name (file_name (settings w)))) w
          else setText (Val (file_defaultContent (settings w))) w)"
  from assms st obtain w1 where r: "r = Inr w1"
    and e: "ee_emit ''open''
              (w1 \<lparr> settings := (settings w1) \<lparr> file_name := js_or name (file_name (settings w)) \<rparr>,
                     previewer_innerHTML :=
                       ee_exportHTML (w1 \<lparr> settings := (settings w1)
                          \<lparr> file_name := js_or name (file_name (settings w)) \<rparr> \<rparr>) \<rparr>) = Inr w'"
    unfolding r_def by (auto simp: ee_open_def Let_def split: sum.splits)
  from r have "eeState w1 = eeState w \<and> isInEdit w1 = isInEdit w"
    by (auto simp: r_def dest: setText_flags split: if_splits)
  with ee_emit_flags [OF e] show ?thesis by simp
qed

lemma ee_load_flags:
  assumes "ee_load this ls h = Inr w"
  shows "eeState w = \<lparr> fullscreen = False, preview = False, edit = True \<rparr> \<and> isInEdit w"
  using assms
  by (auto simp: ee_load_def Let_def insertCSSLink_def split: sum.splits
      dest!: ee_open_flags ee_emit_flags)

lemma reachable_isInEdit: "reachable w \<Longrightarrow> isInEdit w"
proof (induction rule: reachable.induct)
  case (loaded this ls h w)
  then show ?case by (simp add: ee_load_flags)
next
  case (previewed w theme live w')
  with ee_preview_flags [of theme live w] show ?case by auto
next
  case (edited w w')
  with ee_edit_flags [of w] show ?case by auto
next
  case (entered w w')
  with goFullscreen_flags [of w] show ?case by auto
next
  case (exited w)
  then show ?case by (simp add: exitFullscreen_flags)
qed

lemma stored_ready:
  assumes "stored w = Some b"
  obtains store where "localStorage w = Some store"
    and "store (localStorageName (settings w)) = Some b"
  using assms by (auto simp: stored_def split: option.splits)



lemma ex_stored: "stored ex_ee = Some [''a'' \<mapsto> ''old text'']"
  by (simp add: stored_def ex_ee_def ex_storage_def ex_mergeObjs)




lemma ee_open_result:
  assumes "stored w = Some b" and "js_or name (file_name (settings w)) \<notin> set Object_prototype"
  shows "\<exists>w'. ee_open name w = Inr w' \<and> stored w' = Some b \<and>
           file_name (settings w') = js_or name (file_name (settings w)) \<and>
           file_defaultContent (settings w') = file_defaultContent (settings w) \<and>
           browser w' = browser w \<and>
           getText w' =
             surface_reads (browser w)
               (case b (js_or name (file_name (settings w))) of
                  None \<Rightarrow> file_defaultContent (settings w)
                | Some c \<Rightarrow> if c = [] then file_defaultContent (settings w) else c)"
proof -
  from assms(1) obtain store where st: "localStorage w = Some store"
      "store (localStorageName (settings w)) = Some b"
    by (rule stored_ready)
  show ?thesis
    by (simp add: ee_open_effect [OF st assms(2)] stored_def st getText_def surface_reads_def)
qed

lemma ee_save_result:
  assumes "stored w = Some b" and "js_or file (file_name (settings w)) \<noteq> ''__proto__''"
  shows "\<exists>w'. ee_save file c w = Inr w' \<and>
           stored w' = Some (b(js_or file (file_name (settings w)) \<mapsto> js_or c (getText w))) \<and>
           settings w' = settings w \<and> getText w' = getText w \<and> browser w' = browser w"
proof -
  from assms(1) obtain store where st: "localStorage w = Some store"
      "store (localStorageName (settings w)) = Some b"
    by (rule stored_ready)
  show ?thesis
    by (simp add: ee_save_effect [OF st] stringify_put_val [OF assms(2)] stored_def getText_def)
qed

lemma js_or_idem: "js_or name (js_or name k) = js_or name k"
  by (simp add: js_or_def split: option.splits)

lemma ee_importFile_result:
  assumes "stored w = Some b"
    and "js_or name (file_name (settings w)) \<notin> set Object_prototype"
    and "body_innerText (browser w)"
  shows "\<exists>w'. ee_importFile name c w = Inr w' \<and>
           getText w' =
             (case b (js_or name (file_name (settings w))) of
                None \<Rightarrow> file_defaultContent (settings w)
              | Some t \<Rightarrow> if t = [] then file_defaultContent (settings w) else t) \<and>
           stored w' =
             Some (b(js_or name (file_name (settings w)) \<mapsto>
                     (case b (js_or name (file_name (settings w))) of
                        None \<Rightarrow> file_defaultContent (settings w)
                      | Some t \<Rightarrow> if t = [] then file_defaultContent (settings w) else t)))"
proof -
  let ?k = "js_or name (file_name (settings w))"
  let ?t = "case b ?k of
              None \<Rightarrow> file_defaultContent (settings w)
            | Some t \<Rightarrow> if t = [] then file_defaultContent (settings w) else t"
  have kp: "?k \<noteq> ''__proto__''"
    using assms(2) by (auto simp: Object_prototype_def)
  from ee_open_result [OF assms(1,2)] obtain w1
    where w1: "ee_open name w = Inr w1" "stored w1 = Some b" "file_name (settings w1) = ?k"
      "file_defaultContent (settings w1) = file_defaultContent (settings w)"
      "browser w1 = browser w" "getText w1 = ?t"
    using assms(3) by (auto simp: surface_reads_innerText)
  let ?w1 = "w1 \<lparr> editor_value := Some (js_or c []) \<rparr>"
  have s1: "stored ?w1 = Some b"
    using w1(2) by (auto simp: stored_def split: option.splits)
  have "getText ?w1 = getText w1"
    by (simp add: getText_def)
  then have g1: "getText ?w1 = ?t"
    by (simp only: w1(6))
  have k1: "js_or None (file_name (settings ?w1)) \<noteq> ''__proto__''"
    using kp w1(3) by (simp add: js_or_def)
  from ee_save_result [OF s1 k1, of None] obtain w2
    where w2: "ee_save None None ?w1 = Inr w2" "stored w2 = Some (b(?k \<mapsto> ?t))"
      "settings w2 = settings w1" "browser w2 = browser w"
    using w1(3,5) g1 by (auto simp: js_or_def)
  have k2: "js_or name (file_name (settings w2)) = ?k"
    by (simp add: w2(3) w1(3) js_or_idem)
  have k2': "js_or name (file_name (settings w2)) \<notin> set Object_prototype"
    unfolding k2 by (rule assms(2))
  from ee_open_result [OF w2(2) k2'] obtain w3
    where w3: "ee_open name w2 = Inr w3" "stored w3 = Some (b(?k \<mapsto> ?t))"
      "getText w3 =
         surface_reads (browser w2)
           (case (b(?k \<mapsto> ?t)) ?k of
              None \<Rightarrow> file_defaultContent (settings w2)
            | Some c \<Rightarrow> if c = [] then file_defaultContent (settings w2) else c)"
    unfolding k2 by blast
  have "getText w3 = ?t"
    unfolding w3(3) using assms(3)
    by (simp add: w2(3,4) w1(4) surface_reads_innerText split: option.splits)
  with w1(1) w2(1) w3(1,2) show ?thesis
    by (simp add: ee_importFile_def Let_def ee_get_editor)
qed

lemma stringify_rename:
  assumes "oldName \<notin> set Object_prototype" and "newName \<noteq> ''__proto__''"
  shows "JSON_stringify (js_delete (js_put (JSON_parse b) newName (js_get (JSON_parse b) oldName)) oldName)
          = (case b oldName of
               None \<Rightarrow> b(newName := None, oldName := None)
             | Some c \<Rightarrow> b(newName \<mapsto> c, oldName := None))"
  using assms
  by (intro ext)
     (simp add: JSON_stringify_def js_delete_def js_put_def JSON_parse_def js_get_def own_def
        split: option.splits)

lemma ee_rename_result:
  assumes "stored w = Some b"
    and "oldName \<notin> set Object_prototype" and "newName \<noteq> ''__proto__''"
    and "js_or (Some newName) (file_name (settings w)) \<notin> set Object_prototype"
  shows "\<exists>w'. ee_rename oldName newName w = Inr w' \<and>
           stored w' = Some (case b oldName of
                               None \<Rightarrow> b(newName := None, oldName := None)
                             | Some c \<Rightarrow> b(newName \<mapsto> c, oldName := None)) \<and>
           file_name (settings w') = js_or (Some newName) (file_name (settings w))"
proof -
  from assms(1) obtain store where st: "localStorage w = Some store"
      "store (localStorageName (settings w)) = Some b"
    by (rule stored_ready)
  let ?b = "case b oldName of
              None \<Rightarrow> b(newName := None, oldName := None)
            | Some c \<Rightarrow> b(newName \<mapsto> c, oldName := None)"
  let ?w1 = "w \<lparr> localStorage := Some (store(localStorageName (settings w) \<mapsto> ?b)) \<rparr>"
  have r: "ee_rename oldName newName w = ee_open (Some newName) ?w1"
    using st by (simp add: ee_rename_def Let_def stringify_rename [OF assms(2,3)])
  have s1: "stored ?w1 = Some ?b"
    by (simp add: stored_def)
  have k: "js_or (Some newName) (file_name (settings ?w1)) \<notin> set Object_prototype"
    using assms(4) by simp
  have d: "file_name (settings ?w1) = file_name (settings w)"
    by simp
  from ee_open_result [OF s1 k] show ?thesis
    unfolding r d by blast
qed

lemma ex_flags:
  "eeState ex_ee = \<lparr> fullscreen = False, preview = False, edit = True \<rparr>" "isInEdit ex_ee"
  by (simp_all add: ex_ee_def)

lemma ee_preview_shown:
  assumes "\<not> is_live theme live"
  shows "\<exists>w'. ee_preview theme live w = Inr w' \<and>
           editorIframe_display w' = ''none'' \<and> previewerIframe_display w' = ''block''"
  using assms
  by (cases "theme_link w")
     (simp_all add: ee_preview_def ee_get_wrapper Let_def replaceClass_def insertCSSLink_def
        ee_exportHTML_def getText_def ee_emit_plain not_inherited handlers_def)

lemma goFullscreen_saved:
  "\<exists>w'. goFullscreen w = Inr w' \<and>
     saved_editorIframe w' = Some (editorIframe_display w) \<and>
     saved_previewerIframe w' = Some (previewerIframe_display w)"
proof -
  have live: "is_live (ThemeBool True) None"
    by (simp add: is_live_def)
  show ?thesis
    by (simp add: goFullscreen_def Let_def ee_preview_live [OF live])
qed

lemma exitFullscreen_display:
  "editorIframe_display (exitFullscreen w) =
     (case saved_editorIframe w of None \<Rightarrow> editorIframe_display w | Some d \<Rightarrow> d)"
  "previewerIframe_display (exitFullscreen w) =
     (case saved_previewerIframe w of None \<Rightarrow> previewerIframe_display w | Some d \<Rightarrow> d)"
  by (simp_all add: exitFullscreen_def Let_def split: option.splits)

lemma ex_reachable: "reachable ex_ee"
  by (rule reachable.loaded [OF ex_loaded])

lemma ex_wrapper: "wrapper_className ex_ee = ''epiceditor-wrapper epiceditor-edit-mode''"
  by (simp add: ex_ee_def)

lemma replace_edit_mode:
  "replace_first ''epiceditor-edit-mode'' ''epiceditor-preview-mode''
     ''epiceditor-wrapper epiceditor-edit-mode'' = ''epiceditor-wrapper epiceditor-preview-mode''"
  by simp

lemma ex_html_loaded:
  "ee_load (fst (EpicEditor ex_options ex_storage)) (snd (EpicEditor ex_options ex_storage))
     (ex_host \<lparr> body_innerText := False \<rparr>) = Inr ex_html"
  unfolding ex_constructed fst_conv snd_conv
  by (simp add: ee_load_def insertCSSLink_def ee_open_def ex_mergeObjs
      ex_storage_def JSON_parse_def js_get_own Let_def js_or_def setText_def ee_exportHTML_def
      getText_def ee_emit_plain not_inherited handlers_def ex_ee_def ex_html_def ex_host_def)



lemma ex_browser: "body_innerText (browser ex_ee)"
  by (simp add: ex_ee_def ex_host_def)

text \<open>
  Which calls write to persistent storage. The blob is there for every editor constructed
  and loaded with persistent storage available: the constructor creates it when it is
  missing, and \<open>load\<close> does not write to storage.
\<close>

lemma constructor_makes_blob:
  "\<exists>store'. snd (EpicEditor opts (Some store)) = Some store' \<and>
             store' (localStorageName (mergeObjs opts)) \<noteq> None"
  by (cases "store (localStorageName (mergeObjs opts))") (simp_all add: EpicEditor_def Let_def)

lemma constructor_settings:
  "inst_settings (fst (EpicEditor opts ls)) = mergeObjs opts"
  by (simp add: EpicEditor_def Let_def split: option.splits)

lemma ee_emit_storage:
  "ee_emit ev w = Inr w' \<Longrightarrow>
     localStorage w' = localStorage w \<and> localStorageName (settings w') = localStorageName (settings w)"
  by (auto simp: ee_emit_def split: if_splits js_val.splits)

lemma setText_storage:
  "setText c w = Inr w' \<Longrightarrow>
     localStorage w' = localStorage w \<and> localStorageName (settings w') = localStorageName (settings w)"
  by (auto simp: setText_def split: if_splits js_val.splits)

lemma ee_open_storage:
  assumes "ee_open name w = Inr w'"
  shows "localStorage w' = localStorage w \<and>
         localStorageName (settings w') = localStorageName (settings w)"
proof (cases "stored w")
  case None
  with assms show ?thesis
    by (auto simp: ee_open_def stored_def split: option.splits)
next
  case (Some b)
  then obtain store where st: "localStorage w = Some store"
      "store (localStorageName (settings w)) = Some b"
    by (rule stored_ready)
  define r where
    "r = (if truthy_str (js_get (JSON_parse b) (js_or name (file_name (settings w))))
          then setText (js_get (JSON_parse b) (js_or name (file_name (settings w)))) w
          else setText (Val (file_defaultContent (settings w))) w)"
  from assms st obtain w1 where r: "r = Inr w1"
    and e: "ee_emit ''open''
              (w1 \<lparr> settings := (settings w1) \<lparr> file_name := js_or name (file_name (settings w)) \<rparr>,
                     previewer_innerHTML :=
                       ee_exportHTML (w1 \<lparr> settings := (settings w1)
                          \<lparr> file_name := js_or name (file_name (settings w)) \<rparr> \<rparr>) \<rparr>) = Inr w'"
    unfolding r_def by (auto simp: ee_open_def Let_def split: sum.splits)
  from r have "localStorage w1 = localStorage w \<and>
      localStorageName (settings w1) = localStorageName (settings w)"
    by (auto simp: r_def dest: setText_storage split: if_splits)
  with ee_emit_storage [OF e] show ?thesis by simp
qed

lemma ee_load_storage:
  assumes "ee_load this ls h = Inr w"
  shows "localStorage w = ls \<and> localStorageName (settings w) = localStorageName (inst_settings this)"
  using assms
  by (auto simp: ee_load_def Let_def insertCSSLink_def split: sum.splits
      dest!: ee_open_storage ee_emit_storage)

lemma loaded_store_present:
  assumes "ee_load (fst (EpicEditor opts (Some store))) (snd (EpicEditor opts (Some store))) h = Inr w"
  shows "stored w \<noteq> None"
  using ee_load_storage [OF assms] constructor_makes_blob [of opts store]
  by (auto simp: stored_def constructor_settings)

lemma ee_preview_storage:
  "\<exists>w'. ee_preview theme live w = Inr w' \<and> localStorage w' = localStorage w \<and>
     settings w' = settings w"
  by (cases "theme_link w")
     (simp_all add: ee_preview_def ee_get_wrapper Let_def replaceClass_def insertCSSLink_def
        ee_exportHTML_def getText_def ee_emit_plain not_inherited handlers_def)

lemma ee_edit_storage:
  "\<exists>w'. ee_edit w = Inr w' \<and> localStorage w' = localStorage w \<and> settings w' = settings w"
  by (simp add: ee_edit_def ee_get_wrapper Let_def replaceClass_def ee_emit_plain not_inherited)

lemma goFullscreen_storage:
  "\<exists>w'. goFullscreen w = Inr w' \<and> localStorage w' = localStorage w \<and> settings w' = settings w"
proof -
  have live: "is_live (ThemeBool True) None"
    by (simp add: is_live_def)
  show ?thesis
    by (simp add: goFullscreen_def Let_def ee_preview_live [OF live])
qed

lemma exitFullscreen_storage:
  "localStorage (exitFullscreen w) = localStorage w" "settings (exitFullscreen w) = settings w"
  by (simp_all add: exitFullscreen_def Let_def split: option.splits)

lemma ee_on_storage:
  "ee_on ev h w = Inr w' \<Longrightarrow> localStorage w' = localStorage w \<and> settings w' = settings w"
  by (auto simp: ee_on_def Let_def split: if_splits js_val.splits)

lemma ee_removeListener_storage:
  "ee_removeListener ev h w = Inr w' \<Longrightarrow> localStorage w' = localStorage w \<and> settings w' = settings w"
  by (auto simp: ee_removeListener_def split: if_splits)

lemma ee_remove_absent:
  assumes "ee_remove name w = Inr w'" and "stored_doc k w = None"
  shows "localStorageName (settings w') = localStorageName (settings w) \<and> stored_doc k w' = None"
proof (cases "stored w")
  case None
  with assms(1) show ?thesis
    by (auto simp: ee_remove_def stored_def Let_def split: option.splits)
next
  case (Some b)
  then obtain store where st: "localStorage w = Some store"
      "store (localStorageName (settings w)) = Some b"
    by (rule stored_ready)
  from assms(2) Some have "b k = None"
    by (simp add: stored_doc_def)
  with assms(1) show ?thesis
    by (auto simp: ee_remove_effect [OF st] stored_doc_def stored_def)
qed

lemma stored_doc_same:
  assumes "localStorage w' = localStorage w"
    and "localStorageName (settings w') = localStorageName (settings w)"
  shows "stored_doc k w' = stored_doc k w"
  unfolding stored_doc_def stored_def assms by (rule refl)

lemma absent_kept:
  assumes "localStorage w' = localStorage w"
    and "localStorageName (settings w') = localStorageName (settings w)"
    and "stored_doc k w = None"
  shows "localStorageName (settings w') = localStorageName (settings w) \<and> stored_doc k w' = None"
  using stored_doc_same [OF assms(1,2), of k] assms(2,3) by simp

lemma run_op_absent:
  assumes "\<not> writes_entry x" and "run_op x w = Inr w'" and "stored_doc k w = None"
  shows "localStorageName (settings w') = localStorageName (settings w) \<and> stored_doc k w' = None"
proof (cases x)
  case (Open name)
  with assms(2) have "ee_open name w = Inr w'" by simp
  from ee_open_storage [OF this] show ?thesis
    by (intro absent_kept assms(3)) simp_all
next
  case (Remove name)
  with assms(2) have "ee_remove name w = Inr w'" by simp
  from ee_remove_absent [OF this assms(3)] show ?thesis .
next
  case (Preview theme live)
  with assms(2) ee_preview_storage [of theme live w]
  have "localStorage w' = localStorage w" "settings w' = settings w" by auto
  then show ?thesis
    by (intro absent_kept assms(3)) simp_all
next
  case Edit
  with assms(2) ee_edit_storage [of w]
  have "localStorage w' = localStorage w" "settings w' = settings w" by auto
  then show ?thesis
    by (intro absent_kept assms(3)) simp_all
next
  case EnterFullscreen
  with assms(2) goFullscreen_storage [of w]
  have "localStorage w' = localStorage w" "settings w' = settings w" by auto
  then show ?thesis
    by (intro absent_kept assms(3)) simp_all
next
  case ExitFullscreen
  with assms(2) have "w' = exitFullscreen w" by simp
  then show ?thesis
    by (intro absent_kept assms(3)) (simp_all add: exitFullscreen_storage)
next
  case (On ev h)
  with assms(2) have "ee_on ev h w = Inr w'" by simp
  from ee_on_storage [OF this] show ?thesis
    by (intro absent_kept assms(3)) simp_all
next
  case (Emit ev)
  with assms(2) have "ee_emit ev w = Inr w'" by simp
  from ee_emit_storage [OF this] show ?thesis
    by (intro absent_kept assms(3)) simp_all
next
  case (RemoveListener ev h)
  with assms(2) have "ee_removeListener ev h w = Inr w'" by simp
  from ee_removeListener_storage [OF this] show ?thesis
    by (intro absent_kept assms(3)) simp_all
next
  case (Save f c)
  with assms(1) show ?thesis by simp
next
  case Autosave
  with assms(1) show ?thesis by simp
next
  case (ImportFile name c)
  with assms(1) show ?thesis by simp
next
  case (Rename oldName newName)
  with assms(1) show ?thesis by simp
qed

lemma run_ops_absent:
  assumes "\<forall>x \<in> set cs. \<not> writes_entry x" and "run_ops cs w = Inr w'"
    and "stored_doc k w = None"
  shows "stored_doc k w' = None"
  using assms
proof (induction cs arbitrary: w)
  case Nil
  then show ?case by simp
next
  case (Cons x cs)
  from Cons.prems(2) obtain w1 where w1: "run_op x w = Inr w1" "run_ops cs w1 = Inr w'"
    by (auto simp: and_then_def split: sum.splits)
  from Cons.prems(1) have "\<not> writes_entry x" by simp
  from run_op_absent [OF this w1(1) Cons.prems(3)] have "stored_doc k w1 = None" by simp
  with Cons.IH [OF _ w1(2)] Cons.prems(1) show ?case by simp
qed

lemma ex_notes_options:
  "mergeObjs (ex_options \<lparr> opt_file_name := Some ''notes'' \<rparr>) =
     \<lparr> container = ''epiceditor'', basePath = ''epiceditor'', localStorageName = ''epiceditor'',
       file_name = ''notes'', file_defaultContent = ''hello'',
       theme_preview = ''/themes/preview/github.css'' \<rparr>"
  by (simp add: mergeObjs_def ex_options_def merged_def js_or_def)

lemma ex_notes_constructed:
  "EpicEditor (ex_options \<lparr> opt_file_name := Some ''notes'' \<rparr>) ex_storage =
     (\<lparr> inst_settings = mergeObjs (ex_options \<lparr> opt_file_name := Some ''notes'' \<rparr>),
        inst_events = Map.empty, inst_content = None \<rparr>, ex_storage)"
  by (simp add: EpicEditor_def ex_notes_options ex_storage_def JSON_parse_def js_get_own Let_def
      Object_prototype_def)

lemma ex_notes_loaded:
  "ee_load (fst (EpicEditor (ex_options \<lparr> opt_file_name := Some ''notes'' \<rparr>) ex_storage))
     (snd (EpicEditor (ex_options \<lparr> opt_file_name := Some ''notes'' \<rparr>) ex_storage)) ex_host
     = Inr ex_notes"
  unfolding ex_notes_constructed fst_conv snd_conv
  by (simp add: ee_load_def insertCSSLink_def ee_open_def ex_notes_options
      ex_storage_def JSON_parse_def js_get_own Let_def js_or_def setText_def ee_exportHTML_def
      getText_def ee_emit_plain not_inherited handlers_def ex_ee_def ex_notes_def ex_host_def
      Object_prototype_def)

lemma ex_notes_stored: "stored ex_notes = Some [''a'' \<mapsto> ''old text'']"
  by (simp add: stored_def ex_notes_def ex_ee_def ex_storage_def ex_notes_options)

section \<open>The document store\<close>







text \<open>
  C5, as the code has it. For two different names that are not names of properties
  inherited from \<open>Object.prototype\<close>, and a non-empty \<open>newName\<close>: after
  \<open>rename(oldName, newName)\<close> the blob maps \<open>newName\<close> to the content that was stored under
  \<open>oldName\<close> and has no entry for \<open>oldName\<close>, and \<open>newName\<close> is the active document. When
  \<open>oldName\<close> had no entry, the value assigned to \<open>newName\<close> is \<open>undefined\<close>, which
  \<open>JSON.stringify\<close> omits: the blob afterwards has an entry neither for \<open>oldName\<close> nor for
  \<open>newName\<close>.
\<close>

theorem rename_moves_entry:
  assumes "stored w = Some b"
    and "oldName \<noteq> newName"
    and "newName \<noteq> []"
    and "oldName \<notin> set Object_prototype"
    and "newName \<notin> set Object_prototype"
  shows "observe stored (ee_rename oldName newName w)
           = Inr (Some (case b oldName of
                          None \<Rightarrow> b(newName := None, oldName := None)
                        | Some c \<Rightarrow> b(newName \<mapsto> c, oldName := None))) \<and>
         observe (file_name \<circ> settings) (ee_rename oldName newName w) = Inr newName"
proof -
  have np: "newName \<noteq> ''__proto__''"
    using assms(5) by (auto simp: Object_prototype_def)
  have k: "js_or (Some newName) (file_name (settings w)) = newName"
    using assms(3) by (simp add: js_or_def)
  from ee_rename_result [OF assms(1,4) np] assms(5) show ?thesis
    by (auto simp: observe_def k)
qed

text \<open>
  On the concrete page: renaming the stored document \<open>a\<close> to \<open>b\<close>, and renaming the
  missing document \<open>zz\<close> to \<open>b\<close>.
\<close>

theorem rename_moves_entry_witness:
  "(observe stored (ee_rename ''a'' ''b'' ex_ee) = Inr (Some [''b'' \<mapsto> ''old text'']) \<and>
    observe (file_name \<circ> settings) (ee_rename ''a'' ''b'' ex_ee) = Inr ''b'') \<and>
   (observe stored (ee_rename ''zz'' ''b'' ex_ee) = Inr (Some [''a'' \<mapsto> ''old text'']) \<and>
    observe (file_name \<circ> settings) (ee_rename ''zz'' ''b'' ex_ee) = Inr ''b'')"
proof -
  have o: "''a'' \<notin> set Object_prototype" "''b'' \<notin> set Object_prototype"
    "''zz'' \<notin> set Object_prototype"
    by (simp_all add: Object_prototype_def)
  have n: "''a'' \<noteq> ''b''" "''zz'' \<noteq> ''b''" "''b'' \<noteq> []"
    by simp_all
  have e: "[''a'' \<mapsto> ''old text''](''b'' \<mapsto> ''old text'', ''a'' := None) = [''b'' \<mapsto> ''old text'']"
    "[''a'' \<mapsto> ''old text''](''b'' := None, ''zz'' := None) = [''a'' \<mapsto> ''old text'']"
    by (auto simp: fun_eq_iff)
  from rename_moves_entry [OF ex_stored n(1) n(3) o(1,2)]
    rename_moves_entry [OF ex_stored n(2) n(3) o(3,2)]
  show ?thesis by (simp add: e)
qed

text \<open>
  C5 as stated fails twice on the concrete page: renaming the missing \<open>zz\<close> to \<open>b\<close> creates no
  entry for \<open>b\<close>, and renaming \<open>a\<close> to itself deletes its entry.
\<close>

theorem rename_missing_source_counterexample:
  "observe (stored_doc ''b'') (ee_rename ''zz'' ''b'' ex_ee) = Inr None \<and>
   observe (stored_doc ''a'') (ee_rename ''a'' ''a'' ex_ee) = Inr None"
proof -
  have o: "''a'' \<notin> set Object_prototype" "''zz'' \<notin> set Object_prototype"
    "''a'' \<noteq> ''__proto__''" "''b'' \<noteq> ''__proto__''"
    "js_or (Some ''a'') (file_name (settings ex_ee)) \<notin> set Object_prototype"
    "js_or (Some ''b'') (file_name (settings ex_ee)) \<notin> set Object_prototype"
    by (simp_all add: Object_prototype_def js_or_def)
  from ee_rename_result [OF ex_stored o(2) o(4) o(6)] ee_rename_result [OF ex_stored o(1) o(3) o(5)]
  show ?thesis
    by (auto simp: observe_def stored_doc_def)
qed

text \<open>
  C4 fails on the code. \<open>importFile\<close> assigns the content to the \<open>value\<close> property of the
  editable body element and then calls \<open>save()\<close>, which reads the surface through
  \<open>_getText\<close>: what is stored and shown is the text that \<open>open\<close> had loaded. On the concrete
  page \<open>importFile('a', 'new text')\<close> keeps \<open>old text\<close> in the store and on the surface, where
  \<open>save('a', 'new text')\<close> followed by \<open>open('a')\<close> shows \<open>new text\<close>.
\<close>

theorem importFile_loses_content:
  "observe getText (ee_importFile (Some ''a'') (Some ''new text'') ex_ee) = Inr ''old text'' \<and>
   observe (stored_doc ''a'') (ee_importFile (Some ''a'') (Some ''new text'') ex_ee)
     = Inr (Some ''old text'') \<and>
   observe getText
     (and_then (ee_save (Some ''a'') (Some ''new text'') ex_ee) (ee_open (Some ''a'')))
     = Inr ''new text'' \<and>
   observe (stored_doc ''a'')
     (and_then (ee_save (Some ''a'') (Some ''new text'') ex_ee) (ee_open (Some ''a'')))
     = Inr (Some ''new text'')"
proof -
  have k: "js_or (Some ''a'') (file_name (settings ex_ee)) = ''a''"
    by (simp add: js_or_def)
  have o: "js_or (Some ''a'') (file_name (settings ex_ee)) \<notin> set Object_prototype"
    unfolding k by (simp add: Object_prototype_def)
  have p: "js_or (Some ''a'') (file_name (settings ex_ee)) \<noteq> ''__proto__''"
    unfolding k by simp
  from ee_importFile_result [OF ex_stored o ex_browser, of "Some ''new text''"]
  have "observe getText (ee_importFile (Some ''a'') (Some ''new text'') ex_ee) = Inr ''old text''"
    and "observe (stored_doc ''a'') (ee_importFile (Some ''a'') (Some ''new text'') ex_ee)
           = Inr (Some ''old text'')"
    by (auto simp: k observe_def stored_doc_def)
  moreover
  from ee_save_result [OF ex_stored p, of "Some ''new text''"] obtain w1
    where w1: "ee_save (Some ''a'') (Some ''new text'') ex_ee = Inr w1"
      "stored w1 = Some ([''a'' \<mapsto> ''old text''](''a'' \<mapsto> ''new text''))"
      "settings w1 = settings ex_ee" "browser w1 = browser ex_ee"
    by (auto simp: k js_or_def)
  have o1: "js_or (Some ''a'') (file_name (settings w1)) \<notin> set Object_prototype"
    using o by (simp add: w1(3))
  have b1: "body_innerText (browser w1)"
    by (simp add: w1(4) ex_browser)
  from ee_open_result [OF w1(2) o1] w1(1,3) b1
  have "observe getText
     (and_then (ee_save (Some ''a'') (Some ''new text'') ex_ee) (ee_open (Some ''a'')))
     = Inr ''new text''"
    and "observe (stored_doc ''a'')
     (and_then (ee_save (Some ''a'') (Some ''new text'') ex_ee) (ee_open (Some ''a'')))
     = Inr (Some ''new text'')"
    by (auto simp: and_then_def observe_def stored_doc_def k surface_reads_innerText)
  ultimately show ?thesis
    by blast
qed

text \<open>
  Names that \<open>Object.prototype\<close> provides are left out above. On the concrete page,
  \<open>open('constructor')\<close> finds the inherited function where it looks for a stored content
  and writes it to the editable surface, and \<open>save('__proto__', c)\<close> creates no entry.
\<close>

lemma open_inherited_name:
  "observe getText (ee_open (Some ''constructor'') ex_ee)
     = Inr ''function Object() { [native code] }''"
  by (simp add: observe_def ee_open_def Let_def ex_ee_def ex_storage_def ex_mergeObjs ex_host_def
      JSON_parse_def js_get_own js_or_def Object_prototype_def setText_def getText_def
      ee_emit_plain not_inherited)

lemma stringify_put_proto:
  assumes "b ''__proto__'' = None"
  shows "JSON_stringify (js_put (JSON_parse b) ''__proto__'' v) = b"
  using assms
  by (intro ext) (simp add: JSON_stringify_def js_put_def JSON_parse_def own_def split: option.splits)

lemma save_under_proto:
  assumes "stored w = Some b" and "b ''__proto__'' = None"
  shows "observe stored (ee_save (Some ''__proto__'') c w) = Inr (Some b)"
proof -
  from assms(1) obtain store where st: "localStorage w = Some store"
      "store (localStorageName (settings w)) = Some b"
    by (rule stored_ready)
  have k: "js_or (Some ''__proto__'') (file_name (settings w)) = ''__proto__''"
    by (simp add: js_or_def)
  show ?thesis
    unfolding ee_save_effect [OF st] k stringify_put_proto [of b, OF assms(2)]
    by (simp add: observe_def stored_def)
qed

section \<open>View modes\<close>

text \<open>
  C2 fails on the code. \<open>_isInEdit\<close> is assigned once, in \<open>load\<close>, when \<open>eeState.edit\<close> is
  true, and not when fullscreen is entered; \<open>_exitFullscreen\<close> therefore always takes the
  branch that clears \<open>preview\<close>. On the concrete page, switching to preview, entering
  fullscreen and leaving it ends with the flags of Edit mode, while the restored styles
  show the preview surface and hide the editable one.
\<close>

theorem exitFullscreen_forgets_preview:
  "observe eeState (ee_preview ThemeOmitted None ex_ee)
     = Inr \<lparr> fullscreen = False, preview = True, edit = False \<rparr> \<and>
   observe (eeState \<circ> exitFullscreen) (and_then (ee_preview ThemeOmitted None ex_ee) goFullscreen)
     = Inr \<lparr> fullscreen = False, preview = False, edit = True \<rparr> \<and>
   observe (editorIframe_display \<circ> exitFullscreen)
     (and_then (ee_preview ThemeOmitted None ex_ee) goFullscreen) = Inr ''none'' \<and>
   observe (previewerIframe_display \<circ> exitFullscreen)
     (and_then (ee_preview ThemeOmitted None ex_ee) goFullscreen) = Inr ''block''"
proof -
  have nl: "\<not> is_live ThemeOmitted None"
    by (simp add: is_live_def)
  from ee_preview_flags [of ThemeOmitted None ex_ee] ee_preview_shown [OF nl, of ex_ee] nl obtain w1
    where w1: "ee_preview ThemeOmitted None ex_ee = Inr w1" "isInEdit w1"
      "eeState w1 = \<lparr> fullscreen = False, preview = True, edit = False \<rparr>"
      "editorIframe_display w1 = ''none''" "previewerIframe_display w1 = ''block''"
    by (auto simp: ex_flags)
  from goFullscreen_flags [of w1] goFullscreen_saved [of w1] obtain w2
    where w2: "goFullscreen w1 = Inr w2" "isInEdit w2"
      "eeState w2 = \<lparr> fullscreen = True, preview = True, edit = True \<rparr>"
      "saved_editorIframe w2 = Some ''none''" "saved_previewerIframe w2 = Some ''block''"
    using w1 by auto
  from w1(1,3) w2 show ?thesis
    by (simp add: and_then_def observe_def exitFullscreen_flags exitFullscreen_display)
qed

text \<open>The same in every state the user interface reaches: leaving fullscreen clears \<open>preview\<close>.\<close>

lemma reachable_exit_clears_preview:
  assumes "reachable w"
  shows "\<not> preview (eeState (exitFullscreen w)) \<and> edit (eeState (exitFullscreen w)) = edit (eeState w)"
  using reachable_isInEdit [OF assms] by (simp add: exitFullscreen_flags)

text \<open>
  C3, as the code has it. In every state reached from \<open>load\<close> by the transitions as the user
  interface fires them (a preview that is not live, and \<open>edit\<close>, only while not fullscreen;
  leaving fullscreen only while fullscreen; entering at any time), exactly one of
  \<open>edit\<close> and \<open>preview\<close> is true while \<open>fullscreen\<close> is false, and both are true while it is
  true.
\<close>

theorem reachable_flags:
  assumes "reachable w"
  shows "if fullscreen (eeState w) then edit (eeState w) \<and> preview (eeState w)
         else edit (eeState w) \<noteq> preview (eeState w)"
  using assms
proof (induction rule: reachable.induct)
  case (loaded this ls h w)
  then show ?case by (simp add: ee_load_flags)
next
  case (previewed w theme live w')
  with ee_preview_flags [of theme live w] show ?case by auto
next
  case (edited w w')
  with ee_edit_flags [of w] show ?case by auto
next
  case (entered w w')
  with goFullscreen_flags [of w] show ?case by auto
next
  case (exited w)
  with reachable_isInEdit [of w] show ?case by (simp add: exitFullscreen_flags)
qed

text \<open>The loaded concrete page, and the state after entering fullscreen from it.\<close>

theorem reachable_flags_witness:
  "reachable ex_ee \<and> \<not> fullscreen (eeState ex_ee) \<and> edit (eeState ex_ee) \<noteq> preview (eeState ex_ee) \<and>
   (\<exists>w'. goFullscreen ex_ee = Inr w' \<and> reachable w' \<and> fullscreen (eeState w') \<and>
          edit (eeState w') \<and> preview (eeState w'))"
proof -
  from goFullscreen_flags [of ex_ee] obtain w'
    where w': "goFullscreen ex_ee = Inr w'"
      "eeState w' = \<lparr> fullscreen = True, preview = True, edit = True \<rparr>"
    by blast
  have r: "reachable w'"
    by (rule reachable.entered [OF ex_reachable w'(1)])
  from reachable_flags [OF ex_reachable] reachable_flags [OF r] ex_reachable r w' show ?thesis
    by (simp add: ex_flags)
qed

text \<open>
  C3 as stated fails, since \<open>preview\<close> and \<open>edit\<close> are public methods without a guard of their
  own: called on the concrete page after fullscreen is entered, each of them clears one of
  the two flags while \<open>fullscreen\<close> stays true.
\<close>

theorem unguarded_transitions_counterexample:
  "observe eeState (and_then (goFullscreen ex_ee) (ee_preview ThemeOmitted None))
     = Inr \<lparr> fullscreen = True, preview = True, edit = False \<rparr> \<and>
   observe eeState (and_then (goFullscreen ex_ee) ee_edit)
     = Inr \<lparr> fullscreen = True, preview = False, edit = True \<rparr>"
proof -
  have nl: "\<not> is_live ThemeOmitted None"
    by (simp add: is_live_def)
  from goFullscreen_flags [of ex_ee] obtain w1
    where w1: "goFullscreen ex_ee = Inr w1"
      "eeState w1 = \<lparr> fullscreen = True, preview = True, edit = True \<rparr>"
    by blast
  from ee_preview_flags [of ThemeOmitted None w1] nl w1
  have a: "observe eeState (and_then (goFullscreen ex_ee) (ee_preview ThemeOmitted None))
     = Inr \<lparr> fullscreen = True, preview = True, edit = False \<rparr>"
    by (auto simp: and_then_def observe_def)
  from ee_edit_flags [of w1] w1
  have b: "observe eeState (and_then (goFullscreen ex_ee) ee_edit)
     = Inr \<lparr> fullscreen = True, preview = False, edit = True \<rparr>"
    by (auto simp: and_then_def observe_def)
  from a b show ?thesis by blast
qed

text \<open>
  C7, as the code has it. A live preview (\<open>preview(theme, true)\<close> with a theme path or none,
  or \<open>preview(true)\<close>) returns without raising and leaves the three flags and the
  \<open>display\<close> of both surface frames as they were. What changes is the rendered content of
  the preview surface, the theme link, the class of the wrapper (from edit mode to preview
  mode), and the record of handlers called for the \<open>preview\<close> event; nothing else does.
\<close>

theorem live_preview_frame:
  assumes "is_live theme live"
  shows "\<exists>w'. ee_preview theme live w = Inr w' \<and>
           eeState w' = eeState w \<and>
           editorIframe_display w' = editorIframe_display w \<and>
           previewerIframe_display w' = previewerIframe_display w \<and>
           w' = w \<lparr> wrapper_className := wrapper_className w', theme_link := theme_link w',
                     previewer_innerHTML := previewer_innerHTML w', calls := calls w' \<rparr> \<and>
           wrapper_className w' =
             replace_first ''epiceditor-edit-mode'' ''epiceditor-preview-mode'' (wrapper_className w) \<and>
           previewer_innerHTML w' = marked (browser w) (getText w) \<and>
           calls w' = calls w @ map (Pair ''preview'') (handlers ''preview'' w)"
  by (simp add: ee_preview_live [OF assms])

text \<open>A live preview with the theme \<open>dark.css\<close> on the concrete page.\<close>

theorem live_preview_frame_witness:
  "\<exists>w'. ee_preview (ThemePath ''dark.css'') (Some True) ex_ee = Inr w' \<and>
           eeState w' = eeState ex_ee \<and>
           editorIframe_display w' = [] \<and>
           previewerIframe_display w' = ''none'' \<and>
           previewer_innerHTML w' = ''<p>old text</p>''"
proof -
  have l: "is_live (ThemePath ''dark.css'') (Some True)"
    by (simp add: is_live_def)
  have "editorIframe_display ex_ee = []" "previewerIframe_display ex_ee = ''none''"
    "marked (browser ex_ee) (getText ex_ee) = ''<p>old text</p>''"
    by (simp_all add: ex_ee_def ex_host_def getText_def)
  with live_preview_frame [OF l, of ex_ee] show ?thesis
    by auto
qed

text \<open>
  C7 as stated fails: the live preview of the concrete page replaces the wrapper's class
  \<open>epiceditor-edit-mode\<close> by \<open>epiceditor-preview-mode\<close>, which is neither the rendered content nor
  the theme link. And a boolean first argument is taken as \<open>live\<close>: \<open>preview(false, true)\<close>
  is not live and switches the flags.
\<close>

theorem live_preview_changes_class_counterexample:
  "wrapper_className ex_ee = ''epiceditor-wrapper epiceditor-edit-mode'' \<and>
   observe wrapper_className (ee_preview ThemeOmitted (Some True) ex_ee)
     = Inr ''epiceditor-wrapper epiceditor-preview-mode'' \<and>
   observe eeState (ee_preview (ThemeBool False) (Some True) ex_ee)
     = Inr \<lparr> fullscreen = False, preview = True, edit = False \<rparr>"
proof -
  have l: "is_live ThemeOmitted (Some True)" and nl: "\<not> is_live (ThemeBool False) (Some True)"
    by (simp_all add: is_live_def)
  have "observe wrapper_className (ee_preview ThemeOmitted (Some True) ex_ee)
     = Inr ''epiceditor-wrapper epiceditor-preview-mode''"
    by (simp add: ee_preview_live [OF l] observe_def ex_wrapper replace_edit_mode)
  moreover from ee_preview_flags [of "ThemeBool False" "Some True" ex_ee] nl
  have "observe eeState (ee_preview (ThemeBool False) (Some True) ex_ee)
     = Inr \<lparr> fullscreen = False, preview = True, edit = False \<rparr>"
    by (auto simp: observe_def ex_flags)
  ultimately show ?thesis
    by (simp add: ex_wrapper)
qed

section \<open>Events and surfaces\<close>

text \<open>
  C6 fails on the code. With a handler given and handlers registered for the event,
  \<open>removeListener\<close> reads \<open>this._events[ev]\<close>; the instance has \<open>events\<close> and no \<open>_events\<close>, so
  the call raises a TypeError and removes nothing. On the concrete page, after two
  handlers are registered for \<open>save\<close>, removing the first one raises.
\<close>

theorem removeListener_raises:
  "observe (handlers ''save'') (and_then (ee_on ''save'' 1 ex_ee) (ee_on ''save'' 2)) = Inr [1, 2] \<and>
   and_then (and_then (ee_on ''save'' 1 ex_ee) (ee_on ''save'' 2)) (ee_removeListener ''save'' (Some 1))
     = Inl TypeError"
  by (simp add: and_then_def observe_def handlers_def ee_on_def ee_removeListener_def js_get_own
      js_put_def Let_def Object_prototype_def ex_ee_def)

text \<open>
  The same for every registered event; without a handler argument the call does empty
  the list, and \<open>on\<close> appends in registration order.
\<close>

lemma removeListener_registered:
  assumes "events w ev = Some hs"
  shows "ee_removeListener ev (Some h) w = Inl TypeError"
  using assms by (simp add: ee_removeListener_def js_get_own)

lemma removeListener_all:
  assumes "ev \<noteq> ''__proto__''"
  shows "observe (handlers ev) (ee_removeListener ev None w) = Inr []"
  using assms by (simp add: ee_removeListener_def observe_def handlers_def js_put_def)

lemma ee_on_registers:
  assumes "ev \<notin> set Object_prototype"
  shows "observe (handlers ev) (ee_on ev h w) = Inr (handlers ev w @ [h])"
proof -
  have "ev \<noteq> ''__proto__''"
    using assms by (auto simp: Object_prototype_def)
  with assms show ?thesis
    by (cases "events w ev")
       (simp_all add: ee_on_def js_get_own js_put_def observe_def handlers_def Let_def)
qed

text \<open>
  C9 fails on the code. \<open>get\<close> looks the name up in an object literal with
  \<open>available[name]\<close>, which also finds what the literal inherits from \<open>Object.prototype\<close>:
  \<open>get('constructor')\<close> returns the inherited \<open>constructor\<close>, not \<open>null\<close>.
\<close>

theorem get_inherited_name:
  "ee_get ''constructor'' w = Some (Builtin ''constructor'')"
  by (simp add: ee_get_def js_get_own Object_prototype_def)

text \<open>
  The five recognized names yield their surfaces, and every other name that
  \<open>Object.prototype\<close> does not provide yields \<open>null\<close>.
\<close>

lemma get_recognized:
  "ee_get ''document'' w = Some (Val Document)" "ee_get ''body'' w = Some (Val Body)"
  "ee_get ''editor'' w = Some (Val Editor)" "ee_get ''previewer'' w = Some (Val Previewer)"
  "ee_get ''wrapper'' w = Some (Val Wrapper)"
  by (simp_all add: ee_get_def js_get_own)

lemma get_unrecognized:
  assumes "name \<notin> {''document'', ''body'', ''editor'', ''previewer'', ''wrapper''}"
    and "name \<notin> set Object_prototype"
  shows "ee_get name w = None"
  using assms by (simp add: ee_get_def js_get_own)

section \<open>The constructor\<close>

text \<open>
  C10, as the code has it. When persistent storage is available and a blob already exists
  under the configured storage name without an entry for the configured document name, the
  constructor leaves persistent storage exactly as it found it: the default content is put
  into a parsed copy only. \<open>load\<close> and every later call leave the blob without such an
  entry as well, as long as none of them is \<open>save\<close>, one of its two callers (\<open>importFile\<close> and
  the autosave timer) or \<open>rename\<close>.
\<close>

theorem entry_written_by_save_or_rename_only:
  assumes "ls = Some store"
    and "store (localStorageName (mergeObjs opts)) = Some b"
    and "b (file_name (mergeObjs opts)) = None"
  shows "snd (EpicEditor opts ls) = ls \<and>
         (\<forall>h w0 cs w.
            ee_load (fst (EpicEditor opts ls)) (snd (EpicEditor opts ls)) h = Inr w0 \<longrightarrow>
            run_ops cs w0 = Inr w \<longrightarrow>
            (\<forall>x \<in> set cs. \<not> writes_entry x) \<longrightarrow>
            stored_doc (file_name (mergeObjs opts)) w = None)"
proof -
  have c: "snd (EpicEditor opts ls) = ls"
    using assms by (simp add: EpicEditor_def Let_def)
  have "stored_doc (file_name (mergeObjs opts)) w = None"
    if l: "ee_load (fst (EpicEditor opts ls)) (snd (EpicEditor opts ls)) h = Inr w0"
      and r: "run_ops cs w0 = Inr w" and n: "\<forall>x \<in> set cs. \<not> writes_entry x"
    for h w0 cs w
  proof -
    from ee_load_storage [OF l] have "localStorage w0 = ls"
      and "localStorageName (settings w0) = localStorageName (mergeObjs opts)"
      by (simp_all add: c constructor_settings)
    with assms have "stored_doc (file_name (mergeObjs opts)) w0 = None"
      by (simp add: stored_doc_def stored_def)
    with run_ops_absent [OF n r] show ?thesis .
  qed
  with c show ?thesis by blast
qed

text \<open>
  On the store of the concrete page, an editor constructed for the document \<open>notes\<close>, which
  the blob does not hold: after \<open>load\<close>, \<open>open('a')\<close> and \<open>edit()\<close> there is still no entry for
  \<open>notes\<close>.
\<close>

theorem entry_written_by_save_or_rename_only_witness:
  "snd (EpicEditor (ex_options \<lparr> opt_file_name := Some ''notes'' \<rparr>) ex_storage) = ex_storage \<and>
   (\<exists>w. run_ops [Open (Some ''a''), Edit] ex_notes = Inr w \<and> stored_doc ''notes'' w = None)"
proof -
  let ?opts = "ex_options \<lparr> opt_file_name := Some ''notes'' \<rparr>"
  have m: "localStorageName (mergeObjs ?opts) = ''epiceditor''" "file_name (mergeObjs ?opts) = ''notes''"
    by (simp_all add: ex_notes_options)
  have s: "ex_storage = Some [''epiceditor'' \<mapsto> [''a'' \<mapsto> ''old text'']]"
    by (simp add: ex_storage_def)
  have b: "[''epiceditor'' \<mapsto> [''a'' \<mapsto> ''old text'']] (localStorageName (mergeObjs ?opts))
          = Some [''a'' \<mapsto> ''old text'']"
    by (simp add: m)
  have e: "[''a'' \<mapsto> ''old text''] (file_name (mergeObjs ?opts)) = None"
    by (simp add: m)
  have o: "js_or (Some ''a'') (file_name (settings ex_notes)) \<notin> set Object_prototype"
    by (simp add: js_or_def Object_prototype_def)
  from ee_open_result [OF ex_notes_stored o] obtain w1
    where w1: "ee_open (Some ''a'') ex_notes = Inr w1"
    by blast
  from ee_edit_flags [of w1] obtain w2 where w2: "ee_edit w1 = Inr w2"
    by blast
  have r: "run_ops [Open (Some ''a''), Edit] ex_notes = Inr w2"
    by (simp add: w1 w2 and_then_def)
  have n: "\<forall>x \<in> set [Open (Some ''a''), Edit]. \<not> writes_entry x"
    by simp
  from entry_written_by_save_or_rename_only [OF s b e] ex_notes_loaded r n
  have "snd (EpicEditor ?opts ex_storage) = ex_storage" and "stored_doc ''notes'' w2 = None"
    unfolding m by blast+
  with r show ?thesis by blast
qed

text \<open>
  C10 as stated fails in its last part, that an entry for the configured name is only ever
  created by an explicit save. On the page of that editor, where the blob has no entry for
  \<open>notes\<close>, \<open>rename('a', 'notes')\<close> creates one without calling \<open>save\<close>, and a tick of the
  autosave timer stores the default content under \<open>notes\<close> with no call by the page.
\<close>

theorem entry_without_explicit_save_counterexample:
  "stored_doc ''notes'' ex_notes = None \<and>
   observe (stored_doc ''notes'') (ee_rename ''a'' ''notes'' ex_notes) = Inr (Some ''old text'') \<and>
   observe (stored_doc ''notes'') (run_op Autosave ex_notes) = Inr (Some ''hello'')"
proof -
  have a: "stored_doc ''notes'' ex_notes = None"
    by (simp add: stored_doc_def ex_notes_stored)
  have o: "''a'' \<notin> set Object_prototype" "''notes'' \<noteq> ''__proto__''"
    "js_or (Some ''notes'') (file_name (settings ex_notes)) \<notin> set Object_prototype"
    by (simp_all add: Object_prototype_def js_or_def)
  from ee_rename_result [OF ex_notes_stored o]
  have b: "observe (stored_doc ''notes'') (ee_rename ''a'' ''notes'' ex_notes) = Inr (Some ''old text'')"
    by (auto simp: observe_def stored_doc_def)
  let ?w = "ex_notes \<lparr> content := None \<rparr>"
  have s: "stored ?w = Some [''a'' \<mapsto> ''old text'']"
    using ex_notes_stored by (auto simp: stored_def split: option.splits)
  have f: "file_name (settings ?w) = ''notes''" "getText ?w = ''hello''"
    by (simp_all add: ex_notes_def ex_ee_def ex_notes_options getText_def ex_host_def)
  have p: "js_or (Some (file_name (settings ?w))) (file_name (settings ?w)) \<noteq> ''__proto__''"
    unfolding f by (simp add: js_or_def)
  from ee_save_result [OF s p, of None]
  have "observe (stored_doc ''notes'') (ee_save (Some (file_name (settings ?w))) None ?w)
          = Inr (Some ''hello'')"
    unfolding f by (auto simp: observe_def stored_doc_def js_or_def)
  then have c: "observe (stored_doc ''notes'') (run_op Autosave ex_notes) = Inr (Some ''hello'')"
    by simp
  from a b c show ?thesis by blast
qed

end
